theory Spec2Isabelle
  imports Main "HOL-Library.Log_Nat"
begin

section \<open>JavaScript numbers\<close>

text \<open>
  A finite Number is an IEEE 754 double: a value \<open>m * 2 ^ e\<close> that can be written
  with a significand \<open>\<bar>m\<bar> < 2 ^ 53\<close> and an exponent \<open>- 1074 \<le> e\<close>. It is kept as a
  pair of significand and exponent, which need not be normalised; every operation below
  depends on the value only.
\<close>

type_synonym double = "int \<times> int"

definition valof :: "double \<Rightarrow> rat" where
  "valof d = of_int (fst d) * 2 powi (snd d)"

text \<open>
  \<open>M / 2 ^ k\<close> rounded to the nearest integer, a tie going to the even neighbour:
  the rounding mode of every arithmetic operation on Numbers.
\<close>

definition round_half_even :: "int \<Rightarrow> nat \<Rightarrow> int" where
  "round_half_even M k =
     (let q = M div 2 ^ k; r = M mod 2 ^ k
      in if 2 * r < 2 ^ k then q
         else if 2 ^ k < 2 * r then q + 1
         else if even q then q else q + 1)"

text \<open>
  The exact value \<open>M * 2 ^ e\<close> rounded to a double: the significand is cut to 53 bits
  and the exponent is kept at \<open>- 1074\<close> or above (gradual underflow). Overflow to
  \<^verbatim>\<open>Infinity\<close> is left out: it takes a value of \<open>2 ^ 1024\<close> or more.
\<close>

definition round_double :: "int \<Rightarrow> int \<Rightarrow> double" where
  "round_double M e =
     (let k = max (bitlen \<bar>M\<bar> - 53) (- 1074 - e)
      in if k \<le> 0 then (M, e) else (round_half_even M (nat k), e + k))"

text \<open>The operator \<^verbatim>\<open>*\<close> on Numbers: the exact product, rounded.\<close>

definition double_mult :: "double \<Rightarrow> double \<Rightarrow> double" where
  "double_mult a b = round_double (fst a * fst b) (snd a + snd b)"

text \<open>A string's \<^verbatim>\<open>length\<close> as a Number.\<close>

definition double_of_nat :: "nat \<Rightarrow> double" where
  "double_of_nat n = (int n, 0)"

text \<open>\<^verbatim>\<open>Math.floor\<close>, giving the integer it returns.\<close>

definition Math_floor :: "double \<Rightarrow> int" where
  "Math_floor d =
     (if 0 \<le> snd d then fst d * 2 ^ nat (snd d) else fst d div 2 ^ nat (- snd d))"

text \<open>
  What \<^verbatim>\<open>Math.random()\<close> may return: a double that is at least 0 and less than 1.
\<close>

definition Math_random_range :: "double \<Rightarrow> bool" where
  "Math_random_range d \<longleftrightarrow>
     0 \<le> fst d \<and> fst d < 2 ^ 53 \<and> - 1074 \<le> snd d \<and> valof d < 1"

section \<open>JavaScript values\<close>

text \<open>
  The documents handed to the collection (\<^verbatim>\<open>AnyObject[] | AnyObject\<close>) are arbitrary
  JavaScript values; an object is an association list of its own properties in
  insertion order, a number is a double.
\<close>

datatype js_value =
    JUndefined
  | JNull
  | JBoolean bool
  | JNumber double
  | JString string
  | JArray "js_value list"
  | JObject "(string \<times> js_value) list"

text \<open>\<^verbatim>\<open>Array.isArray(v)\<close>.\<close>

fun isArray :: "js_value \<Rightarrow> bool" where
  "isArray (JArray _) = True"
| "isArray _ = False"

text \<open>
  Truthiness of a value of type \<^verbatim>\<open>string | undefined\<close>: \<^verbatim>\<open>!x\<close> holds for
  \<^verbatim>\<open>undefined\<close> and for the empty string, and \<^verbatim>\<open>x || d\<close> is \<^verbatim>\<open>x\<close> unless
  \<^verbatim>\<open>!x\<close>.
\<close>

fun js_not :: "string option \<Rightarrow> bool" where
  "js_not None = True"
| "js_not (Some s) = (s = [])"

fun js_or :: "string option \<Rightarrow> string \<Rightarrow> string" where
  "js_or None d = d"
| "js_or (Some s) d = (if s = [] then d else s)"

section \<open>\<^verbatim>\<open>lib/utils.ts\<close>\<close>

text \<open>
  \<^verbatim>\<open>s.charAt(i)\<close> for an integer \<open>i\<close>: the one-character string at that index, or
  the empty string when the index is out of range.
\<close>

definition charAt :: "string \<Rightarrow> int \<Rightarrow> string" where
  "charAt s i = (if 0 \<le> i \<and> i < int (length s) then [s ! nat i] else [])"

definition characters :: string where
  "characters = ''ABCDEFGHIJKLMNOPQRSTUVWXYZabcdefghijklmnopqrstuvwxyz0123456789_-$''"

text \<open>
  \<^verbatim>\<open>createRandomString(length)\<close>. The parameter \<^verbatim>\<open>length\<close> is \<open>len\<close> here, an
  integer, and so is the counter \<open>i\<close> (Numbers count exactly up to \<open>2 ^ 53\<close>); a
  string has no maximal length. \<^verbatim>\<open>Math.random\<close> is called once in each iteration:
  \<open>random i\<close> is what the call of iteration \<open>i\<close> returns.
\<close>

function createRandomString_loop ::
  "(nat \<Rightarrow> double) \<Rightarrow> int \<Rightarrow> int \<Rightarrow> string \<Rightarrow> string" where
  "createRandomString_loop random len i result =
     (if i < len
      then createRandomString_loop random len (i + 1)
             (result @
              charAt characters
                (Math_floor
                  (double_mult (random (nat i)) (double_of_nat (length characters)))))
      else result)"
  by pat_completeness auto
termination
  by (relation "measure (\<lambda>(random, len, i, result). nat (len - i))") auto

definition createRandomString :: "(nat \<Rightarrow> double) \<Rightarrow> int \<Rightarrow> string" where
  "createRandomString random len = createRandomString_loop random len 0 []"

text \<open>
  The alphabet in words, to be compared with the literal \<open>characters\<close> of the
  source: the ASCII letters (codes 65 to 90 and 97 to 122), the digits (codes 48 to 57),
  underscore, hyphen and dollar sign.
\<close>

definition is_alphabet_char :: "char \<Rightarrow> bool" where
  "is_alphabet_char c \<longleftrightarrow>
     (let n = (of_char c :: nat)
      in 65 \<le> n \<and> n \<le> 90 \<or> 97 \<le> n \<and> n \<le> 122 \<or> 48 \<le> n \<and> n \<le> 57
         \<or> c = CHR ''_'' \<or> c = CHR ''-'' \<or> c = CHR ''$'')"

section \<open>Errors and requests\<close>

text \<open>
  A thrown value: \<^verbatim>\<open>new Error(message)\<close>, as \<^verbatim>\<open>collection.ts\<close> throws it, or one of
  the two errors the specification has the answer session report synchronously.
\<close>

datatype error = Error string | ConfigurationError | InvalidStateError

datatype http_method = GET | POST

text \<open>The security levels \<^verbatim>\<open>'read'\<close>, \<^verbatim>\<open>'write'\<close> and \<^verbatim>\<open>'read-query'\<close>.\<close>

datatype security_level = Read | Write | ReadQuery

text \<open>The argument of \<^verbatim>\<open>OramaInterface.request\<close>; the body's type varies per call.\<close>

record 'b request_config =
  url :: string
  body :: 'b
  http_method :: http_method
  securityLevel :: security_level

text \<open>
  What a call of a \<^verbatim>\<open>CollectionManager\<close> method does up to its first interaction
  with the network: it throws synchronously, or it calls
  \<^verbatim>\<open>this.oramaInterface.request\<close> with a request configuration (returning or
  awaiting that promise), or it returns a value without any request.
\<close>

datatype ('b, 'a) outcome =
    Throws error
  | Requests "'b request_config"
  | Returns 'a

section \<open>Data model of the answer session\<close>

text \<open>
  Modelled from the spec: \<^verbatim>\<open>answer-session.ts\<close>, which declares \<^verbatim>\<open>Message\<close>,
  \<^verbatim>\<open>Interaction\<close>, \<^verbatim>\<open>PlanExecution\<close> and the class \<^verbatim>\<open>AnswerSession\<close>, is not
  among the sources. The types follow section 3 of the specification: a message is a
  role and a text.
\<close>

datatype role = user | assistant | system

record Message =
  role :: role
  content :: string

text \<open>
  Modelled from the spec: a plan step has a kind, a status and, once resolved, an opaque
  result; a step may be flagged required. \<^verbatim>\<open>PlanExecution\<close> holds the ordered steps
  and the pointer \<^verbatim>\<open>currentStepIndex\<close>.
\<close>

datatype step_kind = Retrieval | ToolCall | Generation | OtherStep string

datatype step_status = StepPending | StepRunning | StepDone | StepFailed | StepSkipped

record PlanStep =
  kind :: step_kind
  status :: step_status
  result :: "js_value option"
  required :: bool

record PlanExecution =
  steps :: "PlanStep list"
  currentStepIndex :: nat

text \<open>
  Modelled from the spec: the four states of an interaction, \<^verbatim>\<open>pending\<close>,
  \<^verbatim>\<open>streaming\<close>, \<^verbatim>\<open>done\<close> and \<^verbatim>\<open>error\<close>; the last two are terminal.
\<close>

datatype interaction_state = Pending | Streaming | Done | Failed

fun terminal :: "interaction_state \<Rightarrow> bool" where
  "terminal Pending = False"
| "terminal Streaming = False"
| "terminal Done = True"
| "terminal Failed = True"

text \<open>
  Modelled from the spec: one question/answer exchange. The field \<^verbatim>\<open>id\<close> is named
  \<open>interaction_id\<close> here.
\<close>

record Interaction =
  interaction_id :: string
  query :: string
  response :: string
  sources :: "js_value list option"
  state :: interaction_state
  plan :: "PlanExecution option"
  aborted :: bool

section \<open>Configuration types of \<^verbatim>\<open>collection.ts\<close>\<close>

datatype provider = openai | fireworks | together

record LLMConfig =
  provider :: provider
  model :: string

text \<open>
  \<^verbatim>\<open>events?: { onStateChange: (state: Interaction[]) => void }\<close>. The callback returns
  nothing; what it does with the snapshot is outside the session.
\<close>

record session_events =
  onStateChange :: "Interaction list \<Rightarrow> unit"

record CreateAnswerSessionConfig =
  LLMConfig :: "LLMConfig option"
  initialMessages :: "Message list option"
  events :: "session_events option"

text \<open>
  The object literal that \<^verbatim>\<open>createAnswerSession\<close> passes to the constructor of
  \<^verbatim>\<open>AnswerSession\<close>: the three fields it sets itself, extended by the spread of the
  optional \<^verbatim>\<open>CreateAnswerSessionConfig\<close>.
\<close>

record AnswerSessionConfig = CreateAnswerSessionConfig +
  url :: string
  readAPIKey :: string
  collectionID :: string

text \<open>
  Modelled from the spec: the class \<^verbatim>\<open>AnswerSession\<close> (its source file is absent).
  Its state is the session configuration, the seed messages, the Interaction Store (an
  ordered sequence, mutated at its last element only), the optional active cancellation
  handle (here the id of the interaction whose request is in flight) and the queries
  queued behind a non-terminal interaction. The state-change notifications are kept as
  the sequence of snapshots handed to the consumer, oldest first.
\<close>

record AnswerSession =
  config :: AnswerSessionConfig
  messages :: "Message list"
  interactions :: "Interaction list"
  cancellation :: "string option"
  queue :: "string list"
  notifications :: "Interaction list list"

text \<open>
  Modelled from the spec: \<^verbatim>\<open>new AnswerSession(config)\<close> keeps the configuration, takes
  the optional seed messages as its history and starts with an empty store, no active
  request, nothing queued and nothing notified.
\<close>

definition new_AnswerSession :: "AnswerSessionConfig \<Rightarrow> AnswerSession" where
  "new_AnswerSession c =
     \<lparr> config = c,
       messages = (case initialMessages c of None \<Rightarrow> [] | Some ms \<Rightarrow> ms),
       interactions = [],
       cancellation = None,
       queue = [],
       notifications = [] \<rparr>"

section \<open>\<^verbatim>\<open>collection.ts\<close>: the class \<^verbatim>\<open>CollectionManager\<close>\<close>

text \<open>
  The constructor arguments of the two collaborators the manager creates. Their classes
  (\<^verbatim>\<open>common.ts\<close>, \<^verbatim>\<open>profile.ts\<close>) are not among the sources; the manager's fields hold
  what the constructor passes to them. \<^verbatim>\<open>apiKey: this.readAPIKey!\<close> passes the key as
  it is, \<^verbatim>\<open>undefined\<close> included.
\<close>

record OramaInterface =
  baseURL :: string
  writeAPIKey :: "string option"
  readAPIKey :: "string option"

record Profile =
  endpoint :: string
  apiKey :: "string option"

record CollectionManagerConfig =
  url :: string
  collectionID :: string
  writeAPIKey :: "string option"
  readAPIKey :: "string option"

text \<open>
  The class has the four fields of its configuration (the constructor copies them) and
  the two collaborators.
\<close>

record CollectionManager = CollectionManagerConfig +
  oramaInterface :: OramaInterface
  profile :: Profile

definition new_CollectionManager :: "CollectionManagerConfig \<Rightarrow> CollectionManager" where
  "new_CollectionManager c =
     \<lparr> url = url c,
       collectionID = collectionID c,
       writeAPIKey = writeAPIKey c,
       readAPIKey = readAPIKey c,
       oramaInterface =
         \<lparr> baseURL = url c,
           OramaInterface.writeAPIKey = writeAPIKey c,
           OramaInterface.readAPIKey = readAPIKey c \<rparr>,
       profile = \<lparr> endpoint = url c, apiKey = readAPIKey c \<rparr> \<rparr>"

text \<open>
  \<^verbatim>\<open>insert(documents)\<close>, named \<open>insert_documents\<close> here (\<open>insert\<close> is taken by
  sets): a value that is not an array is wrapped into a one-element array, then the
  request is made. The method is \<^verbatim>\<open>async\<close>, so it never throws synchronously.
\<close>

definition insert_documents ::
  "CollectionManager \<Rightarrow> js_value \<Rightarrow> (js_value, unit) outcome" where
  "insert_documents this documents =
     (let documents = (if \<not> isArray documents then JArray [documents] else documents)
      in Requests
           \<lparr> request_config.url = ''/v1/collections/'' @ collectionID this @ ''/insert'',
             body = documents,
             http_method = POST,
             securityLevel = Write \<rparr>)"

text \<open>
  \<^verbatim>\<open>createAnswerSession(config?)\<close>: the guard on the read API key, then the
  construction of the session from the manager's fields and the spread of the optional
  configuration.
\<close>

definition answer_session_config ::
  "CollectionManager \<Rightarrow> CreateAnswerSessionConfig option \<Rightarrow> AnswerSessionConfig" where
  "answer_session_config this c =
     \<lparr> LLMConfig = (case c of None \<Rightarrow> None | Some c \<Rightarrow> LLMConfig c),
       initialMessages = (case c of None \<Rightarrow> None | Some c \<Rightarrow> initialMessages c),
       events = (case c of None \<Rightarrow> None | Some c \<Rightarrow> events c),
       AnswerSessionConfig.url = url this,
       AnswerSessionConfig.readAPIKey = js_or (readAPIKey this) [],
       AnswerSessionConfig.collectionID = collectionID this \<rparr>"

definition createAnswerSession ::
  "CollectionManager \<Rightarrow> CreateAnswerSessionConfig option \<Rightarrow> ('b, AnswerSession) outcome" where
  "createAnswerSession this c =
     (if js_not (readAPIKey this)
      then Throws (Error ''Read API key is required to create an answer session'')
      else Returns (new_AnswerSession (answer_session_config this c)))"

text \<open>
  \<^verbatim>\<open>InsertTriggerBody\<close> is declared in \<^verbatim>\<open>lib/types.ts\<close>, which is not among the
  sources. The method reads one field of it, \<^verbatim>\<open>segment_id\<close> (a string that may be
  absent); the remaining fields are the record's extension and pass through unread.
\<close>

record InsertTriggerBody =
  segment_id :: "string option"

definition insertTrigger ::
  "CollectionManager \<Rightarrow> 'a InsertTriggerBody_scheme \<Rightarrow>
     ('a InsertTriggerBody_scheme, 'r) outcome" where
  "insertTrigger this trigger =
     (if js_not (segment_id trigger)
      then Throws (Error ''You cannot insert a trigger without a segment_id'')
      else Requests
             \<lparr> request_config.url =
                 ''/v1/collections/'' @ collectionID this @ ''/triggers/insert'',
               body = trigger,
               http_method = POST,
               securityLevel = Write \<rparr>)"

section \<open>Operations of the answer session\<close>

text \<open>
  Modelled from the spec: the Interaction that \<^verbatim>\<open>ask\<close> creates (the method is in the
  absent \<^verbatim>\<open>answer-session.ts\<close>): state \<^verbatim>\<open>pending\<close>, an empty response, no sources,
  no plan, not aborted. The id is generated at ask-time and is an argument here.
\<close>

definition new_Interaction :: "string \<Rightarrow> string \<Rightarrow> Interaction" where
  "new_Interaction ident q =
     \<lparr> interaction_id = ident, query = q, response = [], sources = None,
       state = Pending, plan = None, aborted = False \<rparr>"

text \<open>
  Modelled from the spec: the session has an active Interaction when the most recent one
  of the store is \<^verbatim>\<open>pending\<close> or \<^verbatim>\<open>streaming\<close> (asks are serialised, so only the
  last element can be non-terminal, and only the last element is mutated).
\<close>

definition active :: "AnswerSession \<Rightarrow> bool" where
  "active s \<longleftrightarrow> interactions s \<noteq> [] \<and> \<not> terminal (state (last (interactions s)))"

text \<open>
  Modelled from the spec: the store is mutated in place at its last element only.
\<close>

definition update_last :: "(Interaction \<Rightarrow> Interaction) \<Rightarrow> AnswerSession \<Rightarrow> AnswerSession" where
  "update_last f s =
     (if interactions s = [] then s
      else s\<lparr> interactions := butlast (interactions s) @ [f (last (interactions s))] \<rparr>)"

text \<open>
  Modelled from the spec: a state-change notification hands the consumer the full current
  sequence of Interactions.
\<close>

definition notify :: "AnswerSession \<Rightarrow> AnswerSession" where
  "notify s = s\<lparr> notifications := notifications s @ [interactions s] \<rparr>"

text \<open>
  Modelled from the spec: \<^verbatim>\<open>ask(query)\<close>. Without a read credential or with an empty
  query the call fails synchronously. Behind a non-terminal Interaction the query is
  queued. Otherwise a new Interaction is created in \<^verbatim>\<open>pending\<close>, appended to the
  store (with a notification), moved to \<^verbatim>\<open>streaming\<close> at once, and the request
  begins.
\<close>

definition ask :: "AnswerSession \<Rightarrow> string \<Rightarrow> string \<Rightarrow> error + AnswerSession" where
  "ask s ident q =
     (if AnswerSessionConfig.readAPIKey (config s) = [] then Inl ConfigurationError
      else if q = [] then Inl InvalidStateError
      else if active s then Inr (s\<lparr> queue := queue s @ [q] \<rparr>)
      else
        (let created = notify (s\<lparr> interactions := interactions s @ [new_Interaction ident q] \<rparr>)
         in Inr ((update_last (\<lambda>i. i\<lparr> state := Streaming \<rparr>) created)
                   \<lparr> cancellation := Some ident \<rparr>)))"

text \<open>
  Modelled from the spec: a response fragment arrives. It is appended to the response of
  the active Interaction, with a notification; once the Interaction is terminal its
  response is frozen.
\<close>

definition receive_fragment :: "AnswerSession \<Rightarrow> string \<Rightarrow> AnswerSession" where
  "receive_fragment s fragment =
     (if active s
      then notify (update_last (\<lambda>i. i\<lparr> response := response i @ fragment \<rparr>) s)
      else s)"

text \<open>
  Modelled from the spec: the stream ends normally. The active Interaction becomes
  \<^verbatim>\<open>done\<close>, the request is released and the consumer is notified.
\<close>

definition stream_completed :: "AnswerSession \<Rightarrow> AnswerSession" where
  "stream_completed s =
     (if active s
      then notify ((update_last (\<lambda>i. i\<lparr> state := Done \<rparr>) s)\<lparr> cancellation := None \<rparr>)
      else s)"

text \<open>
  Modelled from the spec: the Transport Collaborator fails. The active Interaction moves
  to \<^verbatim>\<open>error\<close> with whatever response text has accumulated, and the failure reaches
  the caller with the next notification; nothing is thrown.
\<close>

definition transport_failed :: "AnswerSession \<Rightarrow> AnswerSession" where
  "transport_failed s =
     (if active s
      then notify ((update_last (\<lambda>i. i\<lparr> state := Failed \<rparr>) s)\<lparr> cancellation := None \<rparr>)
      else s)"

text \<open>
  Modelled from the spec: \<^verbatim>\<open>abort()\<close> cancels the active Interaction, if any: it sets
  \<^verbatim>\<open>aborted\<close>, moves the Interaction to \<^verbatim>\<open>done\<close> with the partial response it has,
  and releases the request in flight. Without an active Interaction it does nothing.
\<close>

definition abort :: "AnswerSession \<Rightarrow> AnswerSession" where
  "abort s =
     (if active s
      then notify ((update_last (\<lambda>i. i\<lparr> aborted := True, state := Done \<rparr>) s)
                     \<lparr> cancellation := None \<rparr>)
      else s)"

text \<open>
  Modelled from the spec: what can happen to a session: a call of \<^verbatim>\<open>ask\<close> (with the
  id it generates) or of \<^verbatim>\<open>abort\<close>, or a completion of asynchronous input: a
  fragment, the end of the stream, a transport failure.
\<close>

datatype event =
    Ask string string
  | Fragment string
  | StreamEnd
  | TransportFailure
  | Abort

text \<open>
  Modelled from the spec: one event applied to the session, an error being what a
  misused call reports synchronously.
\<close>

fun step :: "AnswerSession \<Rightarrow> event \<Rightarrow> error + AnswerSession" where
  "step s (Ask ident q) = ask s ident q"
| "step s (Fragment fragment) = Inr (receive_fragment s fragment)"
| "step s StreamEnd = Inr (stream_completed s)"
| "step s TransportFailure = Inr (transport_failed s)"
| "step s Abort = Inr (abort s)"

text \<open>
  Modelled from the spec: events are handled one after the other, in the order of their
  arrival (single-threaded, cooperative scheduling); an error ends the run.
\<close>

fun run :: "AnswerSession \<Rightarrow> event list \<Rightarrow> error + AnswerSession" where
  "run s [] = Inr s"
| "run s (e # es) = (case step s e of Inl err \<Rightarrow> Inl err | Inr s' \<Rightarrow> run s' es)"

section \<open>Properties of \<^verbatim>\<open>createRandomString\<close>\<close>

subsection \<open>Rounding and the index drawn\<close>

lemma round_half_even_less:
  assumes "2 * M < (2 * N - 1) * 2 ^ k"
  shows "round_half_even M k < N"
proof -
  define q where "q = M div 2 ^ k"
  define r where "r = M mod 2 ^ k"
  have M: "M = q * 2 ^ k + r" unfolding q_def r_def by (rule div_mult_mod_eq [symmetric])
  have r0: "0 \<le> r" by (simp add: r_def)
  have p: "(0::int) < 2 ^ k" by simp
  show ?thesis
  proof (cases "2 * r < 2 ^ k")
    case True
    have "2 * q * 2 ^ k \<le> 2 * M" using M r0 by simp
    also have "\<dots> < (2 * N - 1) * 2 ^ k" by (rule assms)
    finally have "2 * q < 2 * N - 1" using p by (simp only: mult_less_cancel_right_pos)
    then have "q < N" by simp
    with True show ?thesis by (simp add: round_half_even_def Let_def flip: q_def r_def)
  next
    case False
    then have "(2 * q + 1) * 2 ^ k \<le> 2 * M" using M by (simp add: algebra_simps)
    also have "\<dots> < (2 * N - 1) * 2 ^ k" by (rule assms)
    finally have "2 * q + 1 < 2 * N - 1" using p by (simp only: mult_less_cancel_right_pos)
    then have "q + 1 < N" by simp
    with False show ?thesis by (simp add: round_half_even_def Let_def flip: q_def r_def)
  qed
qed

lemma round_half_even_nonneg:
  assumes "0 \<le> M"
  shows "0 \<le> round_half_even M k"
proof -
  have "0 \<le> M div 2 ^ k" using assms by (simp add: pos_imp_zdiv_nonneg_iff)
  then show ?thesis by (simp add: round_half_even_def Let_def)
qed

lemma valof_less_one:
  assumes "valof (m, e) < 1" and "0 \<le> m"
  shows "if 0 \<le> e then m = 0 else m < 2 ^ nat (- e)"
proof (cases "0 \<le> e")
  case True
  have "(1::rat) \<le> 2 ^ nat e" by simp
  then have "of_int m * (1::rat) \<le> of_int m * 2 ^ nat e"
    using assms(2) by (intro mult_left_mono) simp_all
  also have "\<dots> < 1" using assms(1) True by (simp add: valof_def power_int_def)
  finally have "m < 1" by simp
  with assms(2) True show ?thesis by simp
next
  case False
  then have "(of_int m :: rat) / 2 ^ nat (- e) < 1"
    using assms(1) by (simp add: valof_def power_int_def field_simps)
  then have "(of_int m :: rat) < of_int (2 ^ nat (- e))" by (simp add: field_simps)
  then have "m < 2 ^ nat (- e)" by (simp only: of_int_less_iff)
  with False show ?thesis by simp
qed

lemma int_div_less:
  fixes a b c :: int
  assumes "a < c * b" and "0 < b"
  shows "a div b < c"
proof -
  have "a div b * b + a mod b = a" by (rule div_mult_mod_eq)
  moreover have "0 \<le> a mod b" using assms(2) by simp
  ultimately have le: "a div b * b \<le> a" by linarith
  show ?thesis
  proof (rule ccontr)
    assume "\<not> a div b < c"
    then have "c \<le> a div b" by simp
    then have "c * b \<le> a div b * b" using assms(2) by (simp add: mult_right_mono)
    with le assms(1) show False by linarith
  qed
qed

lemma Math_random_index:
  assumes "Math_random_range d"
  shows "0 \<le> Math_floor (double_mult d (65, 0)) \<and> Math_floor (double_mult d (65, 0)) < 65"
proof -
  obtain m e where d: "d = (m, e)" by (cases d)
  from assms have m0: "0 \<le> m" and m53: "m < 2 ^ 53" and e: "- 1074 \<le> e"
    and v: "valof (m, e) < 1"
    by (simp_all add: Math_random_range_def d)
  have mult: "double_mult d (65, 0) = round_double (m * 65) e"
    by (simp add: double_mult_def d)
  show ?thesis
  proof (cases "m = 0")
    case True
    with e have "round_double (m * 65) e = (0, e)"
      by (simp add: round_double_def Let_def)
    then show ?thesis by (simp add: mult Math_floor_def)
  next
    case False
    with m0 have mpos: "0 < m" by simp
    from valof_less_one [OF v m0] mpos have eneg: "e < 0" and mn: "m < 2 ^ nat (- e)"
      by (auto split: if_splits)
    define n where "n = nat (- e)"
    have en: "e = - int n" using eneg by (simp add: n_def)
    have mn': "m < 2 ^ n" using mn by (simp add: n_def)
    define M where "M = m * 65"
    have Mpos: "0 < M" using mpos by (simp add: M_def)
    have Mn: "M < 65 * 2 ^ n" using mn' by (simp add: M_def)
    define k where "k = bitlen M - 53"
    show ?thesis
    proof (cases "k \<le> 0")
      case True
      then have "round_double M e = (M, e)"
        using e Mpos by (simp add: round_double_def Let_def k_def)
      moreover have "M div 2 ^ n < 65" using Mn by (intro int_div_less) simp_all
      moreover have "0 \<le> M div 2 ^ n" using Mpos by (simp add: pos_imp_zdiv_nonneg_iff)
      ultimately show ?thesis using eneg by (simp add: mult Math_floor_def flip: M_def n_def)
    next
      case False
      then have kpos: "0 < k" by simp
      have rd: "round_double M e = (round_half_even M (nat k), e + k)"
        using e Mpos kpos by (simp add: round_double_def Let_def k_def max_def)
      have "M < 65 * 2 ^ 53" using m53 by (simp add: M_def)
      also have "\<dots> < (2::int) ^ 60" by simp
      finally have "bitlen M \<le> 60" by (simp add: bitlen_le_iff_power)
      then have k7: "k \<le> 7" by (simp add: k_def)
      have "(65::int) * 2 ^ n < 2 ^ 7 * 2 ^ n" by simp
      also have "\<dots> = 2 ^ (n + 7)" by (simp add: power_add)
      finally have "M < 2 ^ nat (int n + 7)" using Mn by (simp add: nat_add_distrib)
      then have "bitlen M \<le> int n + 7" by (simp add: bitlen_le_iff_power)
      then have kn: "k + 46 \<le> int n" by (simp add: k_def)
      define j where "j = nat (int n - k)"
      have nj: "n = j + nat k" using kn kpos by (simp add: j_def)
      have ek: "e + k = - int j" using kn by (simp add: j_def en)
      have jpos: "0 < j" using kn by (simp add: j_def)
      have "(2::int) ^ nat k \<le> 2 ^ 7" using k7 by (intro power_increasing) simp_all
      then have k128: "(2::int) ^ nat k < 130" by simp
      have "2 * M \<le> 130 * (2 ^ n - 1)" using mn' by (simp add: M_def)
      also have "\<dots> < 130 * 2 ^ n - 2 ^ nat k" using k128 by simp
      also have "\<dots> = (2 * (65 * 2 ^ j) - 1) * 2 ^ nat k"
        by (simp add: nj power_add algebra_simps)
      finally have "round_half_even M (nat k) < 65 * 2 ^ j" by (rule round_half_even_less)
      then have "round_half_even M (nat k) div 2 ^ j < 65" by (intro int_div_less) simp_all
      moreover have "0 \<le> round_half_even M (nat k) div 2 ^ j"
        using round_half_even_nonneg [of M "nat k"] Mpos by (simp add: pos_imp_zdiv_nonneg_iff)
      ultimately show ?thesis using jpos
        by (simp add: mult Math_floor_def rd ek flip: M_def)
    qed
  qed
qed

subsection \<open>The loop\<close>

declare createRandomString_loop.simps [simp del]

lemma length_characters: "length characters = 65"
  by (simp add: characters_def)

lemma charAt_characters:
  assumes "0 \<le> i" and "i < 65"
  shows "\<exists>c. charAt characters i = [c] \<and> c \<in> set characters"
  using assms by (simp add: charAt_def length_characters)

lemma createRandomString_loop_correct:
  assumes "\<forall>k. Math_random_range (random k)"
  shows "length (createRandomString_loop random len i acc) = length acc + nat (len - i)
       \<and> set (createRandomString_loop random len i acc) \<subseteq> set acc \<union> set characters"
  using assms
proof (induction random len i acc rule: createRandomString_loop.induct)
  case (1 random len i acc)
  note rnd = \<open>\<forall>k. Math_random_range (random k)\<close>
  show ?case
  proof (cases "i < len")
    case True
    let ?ix = "Math_floor (double_mult (random (nat i)) (double_of_nat (length characters)))"
    have "0 \<le> ?ix \<and> ?ix < 65"
      using Math_random_index [of "random (nat i)"] rnd
      by (simp add: length_characters double_of_nat_def)
    then obtain c where c: "charAt characters ?ix = [c]" "c \<in> set characters"
      using charAt_characters by blast
    from True have "nat (len - i) = Suc (nat (len - (i + 1)))" by simp
    with "1.IH" [OF True rnd] c True show ?thesis
      by (subst (1 2) createRandomString_loop.simps) auto
  next
    case False
    then show ?thesis by (subst (1 2) createRandomString_loop.simps) simp
  qed
qed

lemma characters_alphabet: "\<forall>c. (c \<in> set characters) = is_alphabet_char c"
  by code_simp

lemma Math_random_rangeI:
  assumes "0 \<le> m" and "m < 2 ^ n" and "m < 2 ^ 53" and "n \<le> 1074"
  shows "Math_random_range (m, - int n)"
proof -
  have "(of_int m :: rat) < of_int (2 ^ n)" using assms(2) by (simp only: of_int_less_iff)
  then have "(of_int m :: rat) / 2 ^ n < 1" by simp
  then have "valof (m, - int n) < 1"
    by (simp add: valof_def power_int_minus field_simps)
  with assms show ?thesis by (simp add: Math_random_range_def)
qed

text \<open>
  C10. For a non-negative integer length and any sequence of values that
  \<^verbatim>\<open>Math.random\<close> may return (doubles from 0 up to, and not including, 1),
  \<^verbatim>\<open>createRandomString\<close> returns a string of exactly that many characters, each one
  of the 65 characters of its alphabet, which are the ASCII letters, the digits,
  underscore, hyphen and dollar sign. The product \<^verbatim>\<open>Math.random() * 65\<close> is taken as
  the double it rounds to.
\<close>

theorem createRandomString_length_alphabet:
  assumes "0 \<le> len" and "\<forall>i. Math_random_range (random i)"
  shows "int (length (createRandomString random len)) = len
       \<and> set (createRandomString random len) \<subseteq> set characters
       \<and> length characters = 65
       \<and> (\<forall>c. (c \<in> set characters) = is_alphabet_char c)"
proof -
  from createRandomString_loop_correct [OF assms(2), of len 0 "[]"]
  have "length (createRandomString random len) = nat len"
    and "set (createRandomString random len) \<subseteq> set characters"
    by (simp_all add: createRandomString_def)
  with assms(1) show ?thesis
    using length_characters characters_alphabet by auto
qed

theorem createRandomString_length_alphabet_witness:
  "(0::int) \<le> 4
   \<and> (\<forall>i. Math_random_range (if even i then 2 ^ 53 - 1 else 1, - 53))
   \<and> createRandomString (\<lambda>i. (if even i then 2 ^ 53 - 1 else 1, - 53)) 4 = ''$A$A''
   \<and> int (length (createRandomString (\<lambda>i. (if even i then 2 ^ 53 - 1 else 1, - 53)) 4)) = 4
   \<and> set (createRandomString (\<lambda>i. (if even i then 2 ^ 53 - 1 else 1, - 53)) 4)
       \<subseteq> set characters"
proof -
  have "Math_random_range (2 ^ 53 - 1, - 53)" and "Math_random_range (1, - 53)"
    using Math_random_rangeI [of "2 ^ 53 - 1" 53] Math_random_rangeI [of 1 53] by simp_all
  then have r: "\<forall>i. Math_random_range (if even i then 2 ^ 53 - 1 else 1, - 53)"
    by simp
  have v: "createRandomString (\<lambda>i. (if even i then 2 ^ 53 - 1 else 1, - 53)) 4 = ''$A$A''"
    by code_simp
  have l: "int (length (createRandomString (\<lambda>i. (if even i then 2 ^ 53 - 1 else 1, - 53)) 4)) = 4"
    and sub: "set (createRandomString (\<lambda>i. (if even i then 2 ^ 53 - 1 else 1, - 53)) 4)
       \<subseteq> set characters"
    using createRandomString_length_alphabet [OF _ r, of 4] by simp_all
  from r v l sub show ?thesis by - (intro conjI; (assumption | simp))
qed

section \<open>Properties of \<^verbatim>\<open>CollectionManager\<close>\<close>

text \<open>
  C8. Whatever value \<^verbatim>\<open>insert\<close> is given, the request goes to the collection's
  insert endpoint with security level \<^verbatim>\<open>write\<close> and its body is an array: a value
  that is not an array is wrapped into the one-element array holding it, and an array
  is sent as it is.
\<close>

theorem insert_body_is_array:
  "\<exists>ds. insert_documents this d =
      Requests \<lparr> request_config.url = ''/v1/collections/'' @ collectionID this @ ''/insert'',
                 body = JArray ds, http_method = POST, securityLevel = Write \<rparr>
      \<and> (\<not> isArray d \<longrightarrow> ds = [d])
      \<and> (isArray d \<longrightarrow> JArray ds = d)"
  by (cases d) (simp_all add: insert_documents_def)

theorem insert_body_is_array_witness:
  "insert_documents
     (new_CollectionManager
       \<lparr> url = ''http://localhost:8080'', collectionID = ''docs'',
         writeAPIKey = Some ''w'', readAPIKey = None \<rparr>)
     (JObject [(''id'', JString ''1'')]) =
     Requests \<lparr> request_config.url = ''/v1/collections/docs/insert'',
                body = JArray [JObject [(''id'', JString ''1'')]],
                http_method = POST, securityLevel = Write \<rparr>
   \<and> insert_documents
     (new_CollectionManager
       \<lparr> url = ''http://localhost:8080'', collectionID = ''docs'',
         writeAPIKey = Some ''w'', readAPIKey = None \<rparr>)
     (JArray [JNumber (1, 0), JNumber (2, 0)]) =
     Requests \<lparr> request_config.url = ''/v1/collections/docs/insert'',
                body = JArray [JNumber (1, 0), JNumber (2, 0)],
                http_method = POST, securityLevel = Write \<rparr>"
  using
    insert_body_is_array [of "new_CollectionManager
       \<lparr> url = ''http://localhost:8080'', collectionID = ''docs'',
         writeAPIKey = Some ''w'', readAPIKey = None \<rparr>" "JObject [(''id'', JString ''1'')]"]
    insert_body_is_array [of "new_CollectionManager
       \<lparr> url = ''http://localhost:8080'', collectionID = ''docs'',
         writeAPIKey = Some ''w'', readAPIKey = None \<rparr>" "JArray [JNumber (1, 0), JNumber (2, 0)]"]
  by (auto simp: new_CollectionManager_def)

text \<open>
  C9. When the trigger's \<^verbatim>\<open>segment_id\<close> is absent or the empty string,
  \<^verbatim>\<open>insertTrigger\<close> throws and no request is made; when it is a non-empty string, the
  request to the collection's trigger endpoint is made with the trigger as its body.
\<close>

theorem insertTrigger_segment_id:
  "((segment_id t = None \<or> segment_id t = Some []) \<longrightarrow>
      insertTrigger this t =
        Throws (Error ''You cannot insert a trigger without a segment_id''))
   \<and> (\<forall>s. segment_id t = Some s \<and> s \<noteq> [] \<longrightarrow>
      insertTrigger this t =
        Requests \<lparr> request_config.url =
                     ''/v1/collections/'' @ collectionID this @ ''/triggers/insert'',
                   body = t, http_method = POST, securityLevel = Write \<rparr>)"
  by (auto simp: insertTrigger_def)

theorem insertTrigger_segment_id_witness:
  "insertTrigger
     (new_CollectionManager
       \<lparr> url = ''http://localhost:8080'', collectionID = ''docs'',
         writeAPIKey = Some ''w'', readAPIKey = None \<rparr>)
     \<lparr> segment_id = None \<rparr> =
     (Throws (Error ''You cannot insert a trigger without a segment_id'')
        :: (InsertTriggerBody, unit) outcome)
   \<and> insertTrigger
     (new_CollectionManager
       \<lparr> url = ''http://localhost:8080'', collectionID = ''docs'',
         writeAPIKey = Some ''w'', readAPIKey = None \<rparr>)
     \<lparr> segment_id = Some [] \<rparr> =
     (Throws (Error ''You cannot insert a trigger without a segment_id'')
        :: (InsertTriggerBody, unit) outcome)
   \<and> insertTrigger
     (new_CollectionManager
       \<lparr> url = ''http://localhost:8080'', collectionID = ''docs'',
         writeAPIKey = Some ''w'', readAPIKey = None \<rparr>)
     \<lparr> segment_id = Some ''seg-1'' \<rparr> =
     (Requests \<lparr> request_config.url = ''/v1/collections/docs/triggers/insert'',
                 body = \<lparr> segment_id = Some ''seg-1'' \<rparr>,
                 http_method = POST, securityLevel = Write \<rparr>
        :: (InsertTriggerBody, unit) outcome)"
  using
    insertTrigger_segment_id [of "\<lparr> segment_id = None \<rparr>" "new_CollectionManager
       \<lparr> url = ''http://localhost:8080'', collectionID = ''docs'',
         writeAPIKey = Some ''w'', readAPIKey = None \<rparr>", where ?'c = unit]
    insertTrigger_segment_id [of "\<lparr> segment_id = Some [] \<rparr>" "new_CollectionManager
       \<lparr> url = ''http://localhost:8080'', collectionID = ''docs'',
         writeAPIKey = Some ''w'', readAPIKey = None \<rparr>", where ?'c = unit]
    insertTrigger_segment_id [of "\<lparr> segment_id = Some ''seg-1'' \<rparr>" "new_CollectionManager
       \<lparr> url = ''http://localhost:8080'', collectionID = ''docs'',
         writeAPIKey = Some ''w'', readAPIKey = None \<rparr>", where ?'c = unit]
  by (simp add: new_CollectionManager_def)

text \<open>
  C1, as the code has it. A manager constructed with the empty string as its read API
  key holds a key, and \<^verbatim>\<open>createAnswerSession\<close> throws all the same: the guard
  \<^verbatim>\<open>!this.readAPIKey\<close> tests truthiness, not presence.
\<close>

theorem createAnswerSession_empty_key_counterexample:
  "readAPIKey
     \<lparr> url = ''http://localhost:8080'', collectionID = ''docs'',
       writeAPIKey = None, readAPIKey = Some [] \<rparr> = Some []
   \<and> createAnswerSession
     (new_CollectionManager
       \<lparr> url = ''http://localhost:8080'', collectionID = ''docs'',
         writeAPIKey = None, readAPIKey = Some [] \<rparr>)
     None =
     (Throws (Error ''Read API key is required to create an answer session'')
        :: (unit, AnswerSession) outcome)"
  by (simp add: createAnswerSession_def new_CollectionManager_def)

text \<open>
  C1, amended. For a manager constructed without a read API key, or with the empty
  string as its key, \<^verbatim>\<open>createAnswerSession\<close> throws and makes no request; for a
  manager constructed with a non-empty read API key it returns the answer session built
  from the manager's URL, collection and that key, and does not throw.
\<close>

theorem createAnswerSession_read_key:
  "((readAPIKey c = None \<or> readAPIKey c = Some []) \<longrightarrow>
      createAnswerSession (new_CollectionManager c) cfg =
        Throws (Error ''Read API key is required to create an answer session''))
   \<and> (\<forall>k. readAPIKey c = Some k \<and> k \<noteq> [] \<longrightarrow>
      createAnswerSession (new_CollectionManager c) cfg =
        Returns (new_AnswerSession (answer_session_config (new_CollectionManager c) cfg))
      \<and> AnswerSessionConfig.readAPIKey
          (answer_session_config (new_CollectionManager c) cfg) = k
      \<and> AnswerSessionConfig.url
          (answer_session_config (new_CollectionManager c) cfg) = url c
      \<and> AnswerSessionConfig.collectionID
          (answer_session_config (new_CollectionManager c) cfg) = collectionID c)"
  by (auto simp: createAnswerSession_def new_CollectionManager_def answer_session_config_def)

theorem createAnswerSession_read_key_witness:
  "createAnswerSession
     (new_CollectionManager
       \<lparr> url = ''http://localhost:8080'', collectionID = ''docs'',
         writeAPIKey = None, readAPIKey = None \<rparr>)
     None =
     (Throws (Error ''Read API key is required to create an answer session'')
        :: (unit, AnswerSession) outcome)
   \<and> createAnswerSession
     (new_CollectionManager
       \<lparr> url = ''http://localhost:8080'', collectionID = ''docs'',
         writeAPIKey = None, readAPIKey = Some ''read-key'' \<rparr>)
     None =
     (Returns
        \<lparr> config =
            \<lparr> LLMConfig = None, initialMessages = None, events = None,
              AnswerSessionConfig.url = ''http://localhost:8080'',
              AnswerSessionConfig.readAPIKey = ''read-key'',
              AnswerSessionConfig.collectionID = ''docs'' \<rparr>,
          messages = [], interactions = [], cancellation = None, queue = [],
          notifications = [] \<rparr>
        :: (unit, AnswerSession) outcome)"
  using
    createAnswerSession_read_key [of
      "\<lparr> url = ''http://localhost:8080'', collectionID = ''docs'',
         writeAPIKey = None, readAPIKey = None \<rparr>" None, where ?'a = unit]
    createAnswerSession_read_key [of
      "\<lparr> url = ''http://localhost:8080'', collectionID = ''docs'',
         writeAPIKey = None, readAPIKey = Some ''read-key'' \<rparr>" None, where ?'a = unit]
  by (simp add: new_CollectionManager_def answer_session_config_def new_AnswerSession_def)

section \<open>Properties of the answer session\<close>

text \<open>
  The session's operations are those of the specification (the class itself is not among
  the sources), so what follows is about the behaviour the specification describes.
\<close>

lemma ask_starts:
  assumes "ask s ident q = Inr s'" and "\<not> active s"
  shows "interactions s' = interactions s @ [(new_Interaction ident q)\<lparr> state := Streaming \<rparr>]"
    and "active s'"
  using assms
  by (auto simp: ask_def Let_def notify_def update_last_def active_def split: if_splits)

lemma receive_fragment_active:
  assumes "active s"
  shows "interactions (receive_fragment s f) =
           butlast (interactions s) @
             [(last (interactions s))\<lparr> response := response (last (interactions s)) @ f \<rparr>]"
    and "active (receive_fragment s f)"
  using assms by (auto simp: receive_fragment_def notify_def update_last_def active_def)

lemma run_fragments:
  assumes "active s"
  shows "\<exists>s'. run s (map Fragment fs) = Inr s' \<and> active s'
      \<and> interactions s' =
           butlast (interactions s) @
             [(last (interactions s))\<lparr> response := response (last (interactions s)) @ concat fs \<rparr>]"
  using assms
proof (induction fs arbitrary: s)
  case Nil
  then show ?case by (simp add: active_def)
next
  case (Cons f fs)
  from Cons.prems have a: "active (receive_fragment s f)"
    by (rule receive_fragment_active(2))
  from Cons.IH [OF a] Cons.prems show ?case
    by (auto simp: receive_fragment_active(1))
qed

lemma run_append:
  "run s (es @ es') = (case run s es of Inl err \<Rightarrow> Inl err | Inr s' \<Rightarrow> run s' es')"
  by (induction es arbitrary: s) (auto split: sum.splits)

lemma transport_failed_active:
  assumes "active s"
  shows "interactions (transport_failed s) =
           butlast (interactions s) @ [(last (interactions s))\<lparr> state := Failed \<rparr>]"
    and "last (notifications (transport_failed s)) = interactions (transport_failed s)"
    and "cancellation (transport_failed s) = None"
  using assms by (auto simp: transport_failed_def notify_def update_last_def active_def)

lemma abort_active:
  assumes "active s"
  shows "interactions (abort s) =
           butlast (interactions s) @
             [(last (interactions s))\<lparr> aborted := True, state := Done \<rparr>]"
    and "cancellation (abort s) = None"
  using assms by (auto simp: abort_def notify_def update_last_def active_def)

lemma abort_inactive: "\<not> active s \<Longrightarrow> abort s = s"
  by (simp add: abort_def)

lemma not_active_abort: "\<not> active (abort s)"
proof (cases "active s")
  case True
  then show ?thesis by (simp add: abort_active(1) active_def)
next
  case False
  then show ?thesis by (simp add: abort_inactive)
qed

text \<open>
  C2. The Interaction that an ask creates starts with an empty response, and after any
  finite sequence of fragments has arrived its response is the concatenation of the
  fragments in arrival order; its length is the sum of their lengths. The earlier
  Interactions of the store are not touched.
\<close>

theorem response_is_concatenation:
  assumes "step s (Ask ident q) = Inr s0" and "\<not> active s"
  shows "response (last (interactions s0)) = []
     \<and> (\<exists>s'. run s0 (map Fragment fs) = Inr s'
          \<and> response (last (interactions s')) = concat fs
          \<and> length (response (last (interactions s'))) = sum_list (map length fs)
          \<and> query (last (interactions s')) = q
          \<and> butlast (interactions s') = interactions s)"
proof -
  from assms have ask: "ask s ident q = Inr s0" by simp
  note s0 = ask_starts [OF ask assms(2)]
  from run_fragments [OF s0(2), of fs] obtain s' where
    r: "run s0 (map Fragment fs) = Inr s'"
    and i: "interactions s' =
      butlast (interactions s0) @
        [(last (interactions s0))\<lparr> response := response (last (interactions s0)) @ concat fs \<rparr>]"
    by blast
  have "response (last (interactions s')) = concat fs"
    by (simp add: i s0(1) new_Interaction_def)
  moreover have "length (concat fs) = sum_list (map length fs)"
    by (simp add: length_concat)
  moreover have "query (last (interactions s')) = q"
    by (simp add: i s0(1) new_Interaction_def)
  moreover have "butlast (interactions s') = interactions s"
    by (simp add: i s0(1))
  moreover have "response (last (interactions s0)) = []"
    by (simp add: s0(1) new_Interaction_def)
  ultimately show ?thesis using r by simp
qed

theorem response_is_concatenation_witness:
  "\<not> active
     (new_AnswerSession
       \<lparr> LLMConfig = None, initialMessages = None, events = None,
         AnswerSessionConfig.url = ''http://localhost:8080'',
         AnswerSessionConfig.readAPIKey = ''read-key'',
         AnswerSessionConfig.collectionID = ''docs'' \<rparr>)
   \<and> (\<exists>s0 s'.
        step
          (new_AnswerSession
            \<lparr> LLMConfig = None, initialMessages = None, events = None,
              AnswerSessionConfig.url = ''http://localhost:8080'',
              AnswerSessionConfig.readAPIKey = ''read-key'',
              AnswerSessionConfig.collectionID = ''docs'' \<rparr>)
          (Ask ''i1'' ''What is Orama?'') = Inr s0
        \<and> response (last (interactions s0)) = []
        \<and> run s0 (map Fragment [''Orama '', ''is a '', ''search engine.'']) = Inr s'
        \<and> response (last (interactions s')) = ''Orama is a search engine.''
        \<and> length (response (last (interactions s'))) = 25)"
proof -
  let ?S =
    "new_AnswerSession
      \<lparr> LLMConfig = None, initialMessages = None, events = None,
        AnswerSessionConfig.url = ''http://localhost:8080'',
        AnswerSessionConfig.readAPIKey = ''read-key'',
        AnswerSessionConfig.collectionID = ''docs'' \<rparr>"
  have na: "\<not> active ?S" by (simp add: active_def new_AnswerSession_def)
  obtain s0 where s0: "step ?S (Ask ''i1'' ''What is Orama?'') = Inr s0"
    using na by (simp add: ask_def new_AnswerSession_def Let_def)
  from response_is_concatenation
    [OF s0 na, of "[''Orama '', ''is a '', ''search engine.'']"]
  show ?thesis using s0 na by auto
qed

text \<open>
  C5. When the transport fails after some fragments of an ask have arrived (or before
  any), the Interaction ends in the terminal state \<^verbatim>\<open>error\<close> and keeps the text
  accumulated so far. No step of the run yields an error: the failure shows in the
  Interaction's state, which is what the last notification hands to the consumer.
\<close>

theorem transport_failure_keeps_partial_response:
  assumes "step s (Ask ident q) = Inr s0" and "\<not> active s"
  shows "\<exists>s'. run s0 (map Fragment fs @ [TransportFailure]) = Inr s'
      \<and> state (last (interactions s')) = Failed
      \<and> terminal (state (last (interactions s')))
      \<and> response (last (interactions s')) = concat fs
      \<and> query (last (interactions s')) = q
      \<and> butlast (interactions s') = interactions s
      \<and> last (notifications s') = interactions s'"
proof -
  from assms have ask: "ask s ident q = Inr s0" by simp
  note s0 = ask_starts [OF ask assms(2)]
  from run_fragments [OF s0(2), of fs] obtain s1 where
    r: "run s0 (map Fragment fs) = Inr s1" and a: "active s1"
    and i: "interactions s1 =
      butlast (interactions s0) @
        [(last (interactions s0))\<lparr> response := response (last (interactions s0)) @ concat fs \<rparr>]"
    by blast
  have run: "run s0 (map Fragment fs @ [TransportFailure]) = Inr (transport_failed s1)"
    by (simp add: run_append r)
  note f = transport_failed_active [OF a]
  have "state (last (interactions (transport_failed s1))) = Failed"
    by (simp add: f(1))
  moreover have "response (last (interactions (transport_failed s1))) = concat fs"
    by (simp add: f(1) i s0(1) new_Interaction_def)
  moreover have "query (last (interactions (transport_failed s1))) = q"
    by (simp add: f(1) i s0(1) new_Interaction_def)
  moreover have "butlast (interactions (transport_failed s1)) = interactions s"
    by (simp add: f(1) i s0(1))
  ultimately show ?thesis using run f(2) by simp
qed

theorem transport_failure_keeps_partial_response_witness:
  "\<not> active
     (new_AnswerSession
       \<lparr> LLMConfig = None, initialMessages = None, events = None,
         AnswerSessionConfig.url = ''http://localhost:8080'',
         AnswerSessionConfig.readAPIKey = ''read-key'',
         AnswerSessionConfig.collectionID = ''docs'' \<rparr>)
   \<and> (\<exists>s0 s'.
        step
          (new_AnswerSession
            \<lparr> LLMConfig = None, initialMessages = None, events = None,
              AnswerSessionConfig.url = ''http://localhost:8080'',
              AnswerSessionConfig.readAPIKey = ''read-key'',
              AnswerSessionConfig.collectionID = ''docs'' \<rparr>)
          (Ask ''i1'' ''What is Orama?'') = Inr s0
        \<and> run s0 (map Fragment [''Orama '', ''is a ''] @ [TransportFailure]) = Inr s'
        \<and> state (last (interactions s')) = Failed
        \<and> response (last (interactions s')) = ''Orama is a ''
        \<and> last (notifications s') = interactions s')"
proof -
  let ?S =
    "new_AnswerSession
      \<lparr> LLMConfig = None, initialMessages = None, events = None,
        AnswerSessionConfig.url = ''http://localhost:8080'',
        AnswerSessionConfig.readAPIKey = ''read-key'',
        AnswerSessionConfig.collectionID = ''docs'' \<rparr>"
  have na: "\<not> active ?S" by (simp add: active_def new_AnswerSession_def)
  obtain s0 where s0: "step ?S (Ask ''i1'' ''What is Orama?'') = Inr s0"
    using na by (simp add: ask_def new_AnswerSession_def Let_def)
  from transport_failure_keeps_partial_response
    [OF s0 na, of "[''Orama '', ''is a '']"]
  show ?thesis using s0 na by auto
qed

text \<open>
  C7. In every session state \<^verbatim>\<open>abort()\<close> raises no error; a second call changes
  nothing more; afterwards the most recent Interaction, if there is one, is terminal.
  Without an active Interaction the session is left as it was; an active one becomes
  \<^verbatim>\<open>done\<close> and \<^verbatim>\<open>aborted\<close>.
\<close>

theorem abort_never_raises_idempotent_terminal:
  "\<exists>s'. step s Abort = Inr s'
     \<and> step s' Abort = Inr s'
     \<and> (interactions s' \<noteq> [] \<longrightarrow> terminal (state (last (interactions s'))))
     \<and> length (interactions s') = length (interactions s)
     \<and> (\<not> active s \<longrightarrow> s' = s)
     \<and> (active s \<longrightarrow>
          interactions s' =
            butlast (interactions s) @
              [(last (interactions s))\<lparr> aborted := True, state := Done \<rparr>])"
proof -
  have "abort (abort s) = abort s"
    using not_active_abort [of s] by (rule abort_inactive)
  moreover have "interactions (abort s) \<noteq> [] \<longrightarrow>
      terminal (state (last (interactions (abort s))))"
    using not_active_abort [of s] by (auto simp: active_def)
  moreover have "length (interactions (abort s)) = length (interactions s)"
    by (cases "active s") (simp_all add: abort_active(1) abort_inactive active_def)
  ultimately show ?thesis
    by (simp add: abort_inactive abort_active(1))
qed

theorem abort_never_raises_idempotent_terminal_witness:
  "step
     (new_AnswerSession
       \<lparr> LLMConfig = None, initialMessages = None, events = None,
         AnswerSessionConfig.url = ''http://localhost:8080'',
         AnswerSessionConfig.readAPIKey = ''read-key'',
         AnswerSessionConfig.collectionID = ''docs'' \<rparr>)
     Abort =
     Inr
     (new_AnswerSession
       \<lparr> LLMConfig = None, initialMessages = None, events = None,
         AnswerSessionConfig.url = ''http://localhost:8080'',
         AnswerSessionConfig.readAPIKey = ''read-key'',
         AnswerSessionConfig.collectionID = ''docs'' \<rparr>)
   \<and> (\<exists>s1 s2.
        run
          (new_AnswerSession
            \<lparr> LLMConfig = None, initialMessages = None, events = None,
              AnswerSessionConfig.url = ''http://localhost:8080'',
              AnswerSessionConfig.readAPIKey = ''read-key'',
              AnswerSessionConfig.collectionID = ''docs'' \<rparr>)
          [Ask ''i1'' ''What is Orama?'', Fragment ''Orama ''] = Inr s1
        \<and> active s1
        \<and> step s1 Abort = Inr s2
        \<and> step s2 Abort = Inr s2
        \<and> state (last (interactions s2)) = Done
        \<and> aborted (last (interactions s2))
        \<and> response (last (interactions s2)) = ''Orama '')"
proof -
  let ?S =
    "new_AnswerSession
      \<lparr> LLMConfig = None, initialMessages = None, events = None,
        AnswerSessionConfig.url = ''http://localhost:8080'',
        AnswerSessionConfig.readAPIKey = ''read-key'',
        AnswerSessionConfig.collectionID = ''docs'' \<rparr>"
  have na: "\<not> active ?S" by (simp add: active_def new_AnswerSession_def)
  have fresh: "step ?S Abort = Inr ?S"
    using abort_never_raises_idempotent_terminal [of ?S] na by auto
  obtain s1 where s1: "run ?S [Ask ''i1'' ''What is Orama?'', Fragment ''Orama ''] = Inr s1"
    and i1: "interactions s1 =
      [\<lparr> interaction_id = ''i1'', query = ''What is Orama?'', response = ''Orama '',
         sources = None, state = Streaming, plan = None, aborted = False \<rparr>]"
    by (simp add: ask_def new_AnswerSession_def Let_def active_def notify_def
        update_last_def receive_fragment_def new_Interaction_def)
  have a1: "active s1" by (simp add: active_def i1)
  from abort_never_raises_idempotent_terminal [of s1] a1 i1 s1 fresh
  show ?thesis by auto
qed

end
